theory Spec2Isabelle
  imports Main "HOL-Library.Word"
begin

unbundle bit_operations_syntax

section \<open>The serial port binding of go-serial\<close>

text \<open>
  The Go package \<^verbatim>\<open>serial\<close> is a binding to libserialport. Every method of \<^verbatim>\<open>Port\<close>
  is a short sequence of calls into the C library (and, for reads and writes without a
  deadline, into an \<^verbatim>\<open>os.File\<close>). The embedding keeps the Go code as it is written and
  makes the library a parameter: a \<^emph>\<open>provider\<close> is a function from its own state and a
  call to a reply and a new state. Every call is logged, with its reply, in the order it is
  issued, so that a statement about which library function a method invokes is a statement
  about the log.
\<close>

subsection \<open>Values that cross the C boundary\<close>

type_synonym byte = "8 word"

text \<open>
  C pointers (\<^verbatim>\<open>*C.struct_sp_port\<close>, \<^verbatim>\<open>*C.struct_sp_port_config\<close>) are addresses, with
  \<open>0\<close> for \<^verbatim>\<open>nil\<close>. The conversions \<^verbatim>\<open>C.int(x)\<close>, \<^verbatim>\<open>C.uint(x)\<close> and \<^verbatim>\<open>C.enum_...(x)\<close>
  of a Go integer keep its low 32 bits.
\<close>

type_synonym ptr = nat

definition C_int :: "int \<Rightarrow> 32 word" where
  "C_int x = word_of_int x"

definition C_uint :: "int \<Rightarrow> 32 word" where
  "C_uint x = word_of_int x"

definition C_enum :: "int \<Rightarrow> 32 word" where
  "C_enum x = word_of_int x"

text \<open>
  The calls the modelled methods issue. A read passes the length of the buffer (the bytes
  the library stores into it are not tracked); a write passes the bytes.
\<close>

datatype sp_call =
    Sp_get_port_by_name string
  | Sp_new_config
  | Sp_free_port ptr
  | Sp_free_config ptr
  | Sp_open ptr "32 word"
  | Sp_close ptr
  | Sp_get_config ptr ptr
  | Sp_set_config ptr ptr
  | Sp_get_port_handle ptr
  | Sp_get_port_name ptr
  | Sp_set_baudrate ptr "32 word"
  | Sp_get_config_baudrate ptr
  | Sp_set_config_bits ptr "32 word"
  | Sp_get_config_bits ptr
  | Sp_set_config_parity ptr "32 word"
  | Sp_get_config_parity ptr
  | Sp_set_config_stopbits ptr "32 word"
  | Sp_get_config_stopbits ptr
  | Sp_set_config_rts ptr "32 word"
  | Sp_get_config_rts ptr
  | Sp_set_config_cts ptr "32 word"
  | Sp_get_config_cts ptr
  | Sp_set_config_dtr ptr "32 word"
  | Sp_get_config_dtr ptr
  | Sp_set_config_dsr ptr "32 word"
  | Sp_get_config_dsr ptr
  | Sp_set_config_xon_xoff ptr "32 word"
  | Sp_get_config_xon_xoff ptr
  | Sp_set_config_flowcontrol ptr "32 word"
  | Sp_nonblocking_read ptr nat
  | Sp_blocking_read ptr nat "32 word"
  | Sp_nonblocking_write ptr "byte list"
  | Sp_blocking_write ptr "byte list" "32 word"
  | File_Read nat nat
  | File_Write nat "byte list"

text \<open>
  A reply: \<open>ret\<close> is the value the call returns (an \<^verbatim>\<open>enum sp_return\<close>, or a byte count),
  \<open>out\<close> the integer found in the out-parameter after the call, \<open>ref\<close> the pointer found
  there. For \<open>File_Read\<close> and \<open>File_Write\<close>, \<open>ret\<close> is the count and \<open>out\<close> the number of
  the operating system error, \<open>0\<close> for none.
\<close>

record reply =
  ret :: int
  out :: int
  ref :: ptr

type_synonym 'w provider = "'w \<Rightarrow> sp_call \<Rightarrow> reply \<times> 'w"

record 'w sys =
  world :: 'w
  trace :: "(sp_call \<times> reply) list"

definition sp :: "'w provider \<Rightarrow> sp_call \<Rightarrow> 'w sys \<Rightarrow> reply \<times> 'w sys" where
  "sp P call s =
     (let (r, w) = P (world s) call
      in (r, \<lparr>world = w, trace = trace s @ [(call, r)]\<rparr>))"

subsection \<open>Constants of libserialport.h\<close>

text \<open>
  Modelled from the spec: the header \<^verbatim>\<open>libserialport.h\<close> is not among the sources. The
  spec names the status codes ARG, FAIL, MEM, SUPP and OK, with the errors negative; the
  values are those of the enumerations \<^verbatim>\<open>sp_return\<close>, \<^verbatim>\<open>sp_mode\<close>, \<^verbatim>\<open>sp_rts\<close> and
  \<^verbatim>\<open>sp_dtr\<close> of the library.
\<close>

definition SP_OK :: int where "SP_OK = 0"
definition SP_ERR_ARG :: int where "SP_ERR_ARG = - 1"
definition SP_ERR_FAIL :: int where "SP_ERR_FAIL = - 2"
definition SP_ERR_MEM :: int where "SP_ERR_MEM = - 3"
definition SP_ERR_SUPP :: int where "SP_ERR_SUPP = - 4"

definition MODE_READ :: int where "MODE_READ = 1"
definition MODE_WRITE :: int where "MODE_WRITE = 2"
definition RTS_OFF :: int where "RTS_OFF = 0"
definition DTR_OFF :: int where "DTR_OFF = 0"

subsection \<open>Errors\<close>

text \<open>
  The four package errors, and the two an \<^verbatim>\<open>os.File\<close> returns: \<^verbatim>\<open>os.ErrInvalid\<close> on a nil
  file, and an error of the operating system, kept by its number.
\<close>

datatype error =
    InvalidArgumentsError
  | SystemError
  | MemoryAllocationError
  | UnsupportedOperationError
  | ErrInvalid
  | FileError int

definition errmsg :: "int \<Rightarrow> error option" where
  "errmsg err =
     (if err = SP_ERR_ARG then Some InvalidArgumentsError
      else if err = SP_ERR_FAIL then Some SystemError
      else if err = SP_ERR_MEM then Some MemoryAllocationError
      else if err = SP_ERR_SUPP then Some UnsupportedOperationError
      else None)"

subsection \<open>Time\<close>

text \<open>
  A \<^verbatim>\<open>time.Time\<close> is the number of nanoseconds since the zero time (January 1, year 1,
  00:00:00 UTC), which is what \<^verbatim>\<open>IsZero\<close> tests. A \<^verbatim>\<open>time.Duration\<close> is an \<^verbatim>\<open>int64\<close> of
  nanoseconds: \<^verbatim>\<open>Sub\<close> returns the largest or smallest duration when the difference does
  not fit. Go's integer division truncates towards zero.
\<close>

type_synonym Time = int
type_synonym Duration = int

definition IsZero :: "Time \<Rightarrow> bool" where
  "IsZero t = (t = 0)"

definition minDuration :: Duration where "minDuration = - (2 ^ 63)"
definition maxDuration :: Duration where "maxDuration = 2 ^ 63 - 1"

definition Sub :: "Time \<Rightarrow> Time \<Rightarrow> Duration" where
  "Sub t u =
     (let d = t - u
      in if d < minDuration then minDuration
         else if maxDuration < d then maxDuration
         else d)"

definition Nanoseconds :: "Duration \<Rightarrow> int" where
  "Nanoseconds d = d"

definition Millisecond :: Duration where "Millisecond = 1000000"

definition go_div :: "int \<Rightarrow> int \<Rightarrow> int" where
  "go_div a b = sgn a * sgn b * (\<bar>a\<bar> div \<bar>b\<bar>)"

subsection \<open>Options and Port\<close>

text \<open>
  The fields of \<^verbatim>\<open>Options\<close> carry the prefix \<open>opt\<close>, those of \<^verbatim>\<open>Port\<close> the prefix
  \<open>port_\<close> where the Go name is a single letter or is also the name of a method. The file
  \<open>port_f\<close> is \<open>None\<close> for nil and otherwise holds the descriptor it wraps.
\<close>

record Options =
  optMode :: int
  optBaudrate :: int
  optDataBits :: int
  optStopBits :: int
  optParity :: int
  optFlowControl :: int

record Port =
  port_name :: string
  port_p :: ptr
  port_c :: ptr
  port_f :: "nat option"
  port_fd :: nat
  opened :: bool
  readDeadline :: Time
  writeDeadline :: Time

text \<open>The zero value of \<^verbatim>\<open>Port\<close> with the field \<^verbatim>\<open>p\<close> set: \<^verbatim>\<open>&Port{p: p}\<close>.\<close>

definition Port_lit :: "ptr \<Rightarrow> Port" where
  "Port_lit p =
     \<lparr>port_name = [], port_p = p, port_c = 0, port_f = None, port_fd = 0,
      opened = False, readDeadline = 0, writeDeadline = 0\<rparr>"

subsection \<open>Creation and release\<close>

definition newSerialPort :: "'w provider \<Rightarrow> ptr \<Rightarrow> 'w sys \<Rightarrow> (error + Port) \<times> 'w sys" where
  "newSerialPort P p s =
     (let (r, s1) = sp P Sp_new_config s
      in case errmsg (ret r) of
           Some e \<Rightarrow> (Inl e, s1)
         | None \<Rightarrow> (Inr ((Port_lit p)\<lparr>port_c := ref r\<rparr>), s1))"

text \<open>The finalizer. Each of the three calls is guarded as in the source.\<close>

definition free :: "'w provider \<Rightarrow> Port \<Rightarrow> 'w sys \<Rightarrow> Port \<times> 'w sys" where
  "free P pt s =
     (let s1 = (if opened pt then snd (sp P (Sp_close (port_p pt)) s) else s);
          s2 = (if port_p pt \<noteq> 0 then snd (sp P (Sp_free_port (port_p pt)) s1) else s1);
          s3 = (if port_c pt \<noteq> 0 then snd (sp P (Sp_free_config (port_c pt)) s2) else s2)
      in (pt\<lparr>opened := False, port_p := 0, port_c := 0\<rparr>, s3))"

definition PortByName :: "'w provider \<Rightarrow> string \<Rightarrow> 'w sys \<Rightarrow> (error + Port) \<times> 'w sys" where
  "PortByName P name s =
     (let (r, s1) = sp P (Sp_get_port_by_name name) s
      in case errmsg (ret r) of
           Some e \<Rightarrow> (Inl e, s1)
         | None \<Rightarrow> newSerialPort P (ref r) s1)"

definition Name :: "'w provider \<Rightarrow> Port \<Rightarrow> 'w sys \<Rightarrow> 'w sys" where
  "Name P pt s = snd (sp P (Sp_get_port_name (port_p pt)) s)"

definition Close :: "'w provider \<Rightarrow> Port \<Rightarrow> 'w sys \<Rightarrow> error option \<times> Port \<times> 'w sys" where
  "Close P pt s =
     (let (r, s1) = sp P (Sp_close (port_p pt)) s
      in (errmsg (ret r), pt\<lparr>opened := False\<rparr>, s1))"

subsection \<open>Getters and setters\<close>

text \<open>
  Every setter is one call whose status is mapped by \<open>errmsg\<close>; every getter is one call
  that returns the out-parameter, or \<open>0\<close> with the error. No method changes the \<^verbatim>\<open>Port\<close>
  structure, so only the system state is returned.
\<close>

definition setter :: "'w provider \<Rightarrow> sp_call \<Rightarrow> 'w sys \<Rightarrow> error option \<times> 'w sys" where
  "setter P call s = (let (r, s1) = sp P call s in (errmsg (ret r), s1))"

definition getter :: "'w provider \<Rightarrow> sp_call \<Rightarrow> 'w sys \<Rightarrow> (int \<times> error option) \<times> 'w sys" where
  "getter P call s =
     (let (r, s1) = sp P call s
      in case errmsg (ret r) of
           Some e \<Rightarrow> ((0, Some e), s1)
         | None \<Rightarrow> ((out r, None), s1))"

definition Baudrate :: "'w provider \<Rightarrow> Port \<Rightarrow> 'w sys \<Rightarrow> (int \<times> error option) \<times> 'w sys" where
  "Baudrate P pt s = getter P (Sp_get_config_baudrate (port_c pt)) s"

definition SetBaudrate :: "'w provider \<Rightarrow> int \<Rightarrow> Port \<Rightarrow> 'w sys \<Rightarrow> error option \<times> 'w sys" where
  "SetBaudrate P baudrate pt s = setter P (Sp_set_baudrate (port_p pt) (C_int baudrate)) s"

definition DataBits :: "'w provider \<Rightarrow> Port \<Rightarrow> 'w sys \<Rightarrow> (int \<times> error option) \<times> 'w sys" where
  "DataBits P pt s = getter P (Sp_get_config_bits (port_c pt)) s"

definition SetDataBits :: "'w provider \<Rightarrow> int \<Rightarrow> Port \<Rightarrow> 'w sys \<Rightarrow> error option \<times> 'w sys" where
  "SetDataBits P bits pt s = setter P (Sp_set_config_bits (port_c pt) (C_int bits)) s"

definition Parity :: "'w provider \<Rightarrow> Port \<Rightarrow> 'w sys \<Rightarrow> (int \<times> error option) \<times> 'w sys" where
  "Parity P pt s = getter P (Sp_get_config_parity (port_c pt)) s"

definition SetParity :: "'w provider \<Rightarrow> int \<Rightarrow> Port \<Rightarrow> 'w sys \<Rightarrow> error option \<times> 'w sys" where
  "SetParity P parity pt s = setter P (Sp_set_config_parity (port_c pt) (C_enum parity)) s"

definition StopBits :: "'w provider \<Rightarrow> Port \<Rightarrow> 'w sys \<Rightarrow> (int \<times> error option) \<times> 'w sys" where
  "StopBits P pt s = getter P (Sp_get_config_stopbits (port_c pt)) s"

definition SetStopBits :: "'w provider \<Rightarrow> int \<Rightarrow> Port \<Rightarrow> 'w sys \<Rightarrow> error option \<times> 'w sys" where
  "SetStopBits P stopbits pt s =
     setter P (Sp_set_config_stopbits (port_c pt) (C_int stopbits)) s"

definition RTS :: "'w provider \<Rightarrow> Port \<Rightarrow> 'w sys \<Rightarrow> (int \<times> error option) \<times> 'w sys" where
  "RTS P pt s = getter P (Sp_get_config_rts (port_c pt)) s"

definition SetRTS :: "'w provider \<Rightarrow> int \<Rightarrow> Port \<Rightarrow> 'w sys \<Rightarrow> error option \<times> 'w sys" where
  "SetRTS P rts pt s = setter P (Sp_set_config_rts (port_c pt) (C_enum rts)) s"

definition CTS :: "'w provider \<Rightarrow> Port \<Rightarrow> 'w sys \<Rightarrow> (int \<times> error option) \<times> 'w sys" where
  "CTS P pt s = getter P (Sp_get_config_cts (port_c pt)) s"

definition SetCTS :: "'w provider \<Rightarrow> int \<Rightarrow> Port \<Rightarrow> 'w sys \<Rightarrow> error option \<times> 'w sys" where
  "SetCTS P cts pt s = setter P (Sp_set_config_cts (port_c pt) (C_enum cts)) s"

definition DTR :: "'w provider \<Rightarrow> Port \<Rightarrow> 'w sys \<Rightarrow> (int \<times> error option) \<times> 'w sys" where
  "DTR P pt s = getter P (Sp_get_config_dtr (port_c pt)) s"

definition SetDTR :: "'w provider \<Rightarrow> int \<Rightarrow> Port \<Rightarrow> 'w sys \<Rightarrow> error option \<times> 'w sys" where
  "SetDTR P dtr pt s = setter P (Sp_set_config_dtr (port_c pt) (C_enum dtr)) s"

definition DSR :: "'w provider \<Rightarrow> Port \<Rightarrow> 'w sys \<Rightarrow> (int \<times> error option) \<times> 'w sys" where
  "DSR P pt s = getter P (Sp_get_config_dsr (port_c pt)) s"

definition SetDSR :: "'w provider \<Rightarrow> int \<Rightarrow> Port \<Rightarrow> 'w sys \<Rightarrow> error option \<times> 'w sys" where
  "SetDSR P dsr pt s = setter P (Sp_set_config_dsr (port_c pt) (C_enum dsr)) s"

definition XonXoff :: "'w provider \<Rightarrow> Port \<Rightarrow> 'w sys \<Rightarrow> (int \<times> error option) \<times> 'w sys" where
  "XonXoff P pt s = getter P (Sp_get_config_xon_xoff (port_c pt)) s"

definition SetXonXoff :: "'w provider \<Rightarrow> int \<Rightarrow> Port \<Rightarrow> 'w sys \<Rightarrow> error option \<times> 'w sys" where
  "SetXonXoff P xon pt s = setter P (Sp_set_config_xon_xoff (port_c pt) (C_enum xon)) s"

definition SetFlowControl :: "'w provider \<Rightarrow> int \<Rightarrow> Port \<Rightarrow> 'w sys \<Rightarrow> error option \<times> 'w sys" where
  "SetFlowControl P xon pt s =
     setter P (Sp_set_config_flowcontrol (port_c pt) (C_enum xon)) s"

definition ApplyConfig :: "'w provider \<Rightarrow> Port \<Rightarrow> 'w sys \<Rightarrow> error option \<times> 'w sys" where
  "ApplyConfig P pt s = setter P (Sp_set_config (port_p pt) (port_c pt)) s"

subsection \<open>Opening\<close>

text \<open>
  \<^verbatim>\<open>sp_get_port_handle\<close> stores a C \<^verbatim>\<open>int\<close> at the address of the field \<^verbatim>\<open>fd\<close>;
  \<^verbatim>\<open>os.NewFile\<close> returns nil for a descriptor that is negative as an \<^verbatim>\<open>int\<close>.
\<close>

definition store_handle :: "int \<Rightarrow> nat" where
  "store_handle v = nat (take_bit 32 v)"

definition NewFile :: "nat \<Rightarrow> nat option" where
  "NewFile fd = (if 2 ^ 63 \<le> fd then None else Some fd)"

text \<open>
  The method \<^verbatim>\<open>(p *Port) open\<close>. The options are a copy owned by the call: the
  assignment of 9600 to \<^verbatim>\<open>opt.Baudrate\<close> is kept as \<open>opt1\<close>, which the rest of the body
  reads. The results of the setters and of \<^verbatim>\<open>ApplyConfig\<close> are discarded, as in the
  source.
\<close>

definition Port_open :: "'w provider \<Rightarrow> Options \<Rightarrow> Port \<Rightarrow> 'w sys \<Rightarrow> error option \<times> Port \<times> 'w sys" where
  "Port_open P opt pt s =
     (let mode = (if optMode opt \<noteq> 0 then optMode opt else MODE_READ OR MODE_WRITE);
          (r1, s1) = sp P (Sp_open (port_p pt) (C_enum mode)) s
      in case errmsg (ret r1) of
           Some e \<Rightarrow> (Some e, pt, s1)
         | None \<Rightarrow>
             (let (r2, s2) = sp P (Sp_get_config (port_p pt) (port_c pt)) s1
              in case errmsg (ret r2) of
                   Some e \<Rightarrow> (let (_, pt', s') = Close P pt s2 in (Some e, pt', s'))
                 | None \<Rightarrow>
                     (let opt1 = (if optBaudrate opt = 0 then opt\<lparr>optBaudrate := 9600\<rparr> else opt);
                          s3 = (if optBaudrate opt = 0 then s2
                                else snd (SetBaudrate P (optBaudrate opt1) pt s2));
                          s4 = (if optDataBits opt1 = 0 then snd (SetDataBits P 8 pt s3)
                                else snd (SetDataBits P (optDataBits opt1) pt s3));
                          s5 = (if optStopBits opt1 = 0 then snd (SetStopBits P 1 pt s4)
                                else snd (SetStopBits P (optStopBits opt1) pt s4));
                          s6 = snd (SetParity P (optParity opt1) pt s5);
                          s7 = snd (SetRTS P RTS_OFF pt s6);
                          s8 = snd (SetDTR P DTR_OFF pt s7);
                          s9 = snd (SetFlowControl P (optFlowControl opt1) pt s8);
                          s10 = snd (ApplyConfig P pt s9);
                          (r3, s11) = sp P (Sp_get_port_handle (port_p pt)) s10
                      in case errmsg (ret r3) of
                           Some e \<Rightarrow>
                             (let (_, pt', s') = Close P (pt\<lparr>port_fd := store_handle (out r3)\<rparr>) s11
                              in (Some e, pt', s'))
                         | None \<Rightarrow>
                             (let pt1 = pt\<lparr>port_fd := store_handle (out r3)\<rparr>;
                                  s12 = Name P pt1 s11
                              in (None, pt1\<lparr>port_f := NewFile (port_fd pt1), opened := True\<rparr>, s12)))))"

text \<open>The method \<^verbatim>\<open>(p *Port) Open\<close> and the function \<^verbatim>\<open>Open\<close> of the package.\<close>

definition Port_Open :: "'w provider \<Rightarrow> Options \<Rightarrow> Port \<Rightarrow> 'w sys \<Rightarrow> error option \<times> Port \<times> 'w sys" where
  "Port_Open P opt pt s = Port_open P opt pt s"

definition Open :: "'w provider \<Rightarrow> string \<Rightarrow> Options \<Rightarrow> 'w sys \<Rightarrow> (error + Port) \<times> 'w sys" where
  "Open P name opt s =
     (case PortByName P name s of
        (Inl e, s1) \<Rightarrow> (Inl e, s1)
      | (Inr pt, s1) \<Rightarrow>
          (case Port_open P opt pt s1 of
             (Some e, pt', s2) \<Rightarrow> (Inl e, s2)
           | (None, pt', s2) \<Rightarrow> (Inr pt', s2)))"

subsection \<open>Deadlines, reading and writing\<close>

definition SetDeadline :: "Time \<Rightarrow> Port \<Rightarrow> error option \<times> Port" where
  "SetDeadline t pt = (None, pt\<lparr>readDeadline := t, writeDeadline := t\<rparr>)"

definition SetReadDeadline :: "Time \<Rightarrow> Port \<Rightarrow> error option \<times> Port" where
  "SetReadDeadline t pt = (None, pt\<lparr>readDeadline := t\<rparr>)"

definition SetWriteDeadline :: "Time \<Rightarrow> Port \<Rightarrow> error option \<times> Port" where
  "SetWriteDeadline t pt = (None, pt\<lparr>writeDeadline := t\<rparr>)"

text \<open>
  A byte slice: its elements and its capacity. The expression \<^verbatim>\<open>&b[0]\<close> panics on a
  slice of length 0; \<^verbatim>\<open>SetLen(n)\<close> of package reflect panics when \<open>n\<close> exceeds the
  capacity.
\<close>

record slice =
  elems :: "byte list"
  cap :: nat

datatype panic = IndexOutOfRange | SetLenOutOfRange

definition addr0 :: "slice \<Rightarrow> panic + unit" where
  "addr0 b = (if elems b = [] then Inl IndexOutOfRange else Inr ())"

text \<open>
  \<^verbatim>\<open>p.f.Read(b)\<close> and \<^verbatim>\<open>p.f.Write(b)\<close>: a nil file answers \<^verbatim>\<open>os.ErrInvalid\<close> without a
  call.
\<close>

definition file_result :: "reply \<Rightarrow> int \<times> error option" where
  "file_result r = (ret r, if out r = 0 then None else Some (FileError (out r)))"

definition f_Read :: "'w provider \<Rightarrow> slice \<Rightarrow> Port \<Rightarrow> 'w sys \<Rightarrow> (int \<times> error option) \<times> 'w sys" where
  "f_Read P b pt s =
     (case port_f pt of
        None \<Rightarrow> ((0, Some ErrInvalid), s)
      | Some fd \<Rightarrow> (let (r, s1) = sp P (File_Read fd (length (elems b))) s in (file_result r, s1)))"

definition f_Write :: "'w provider \<Rightarrow> slice \<Rightarrow> Port \<Rightarrow> 'w sys \<Rightarrow> (int \<times> error option) \<times> 'w sys" where
  "f_Write P b pt s =
     (case port_f pt of
        None \<Rightarrow> ((0, Some ErrInvalid), s)
      | Some fd \<Rightarrow> (let (r, s1) = sp P (File_Write fd (elems b)) s in (file_result r, s1)))"

text \<open>
  The two lines that \<^verbatim>\<open>Read\<close> and \<^verbatim>\<open>Write\<close> share, ``calculate milliseconds until
  deadline'': \<open>now\<close> is the value of \<^verbatim>\<open>time.Now()\<close>.
\<close>

definition millis_until :: "Time \<Rightarrow> Time \<Rightarrow> int" where
  "millis_until deadline now =
     (let delta = Sub deadline now
      in go_div (Nanoseconds delta) Millisecond)"

text \<open>
  \<^verbatim>\<open>Read\<close> and \<^verbatim>\<open>Write\<close>. The outcome is a panic or the pair the method returns; the
  system state is returned in both cases, so that the calls issued before a panic stay in
  the log. The argument \<^verbatim>\<open>&b[0]\<close> is evaluated before the call it belongs to.
\<close>

definition Read :: "'w provider \<Rightarrow> Time \<Rightarrow> slice \<Rightarrow> Port \<Rightarrow> 'w sys \<Rightarrow> (panic + (int \<times> error option)) \<times> 'w sys" where
  "Read P now b pt s =
     (if IsZero (readDeadline pt) then (let (res, s1) = f_Read P b pt s in (Inr res, s1))
      else
        (let millis = millis_until (readDeadline pt) now
         in case (if millis \<le> 0
                  then (case addr0 b of
                          Inl e \<Rightarrow> Inl e
                        | Inr _ \<Rightarrow> Inr (sp P (Sp_nonblocking_read (port_p pt) (length (elems b))) s))
                  else (case addr0 b of
                          Inl e \<Rightarrow> Inl e
                        | Inr _ \<Rightarrow>
                            Inr (sp P (Sp_blocking_read (port_p pt) (length (elems b)) (C_uint millis)) s)))
            of
              Inl e \<Rightarrow> (Inl e, s)
            | Inr (r, s1) \<Rightarrow>
                (let c = ret r
                 in if c < 0 then (Inr (0, errmsg c), s1)
                    else if int (cap b) < c then (Inl SetLenOutOfRange, s1)
                    else (Inr (c, None), s1))))"

definition Write :: "'w provider \<Rightarrow> Time \<Rightarrow> slice \<Rightarrow> Port \<Rightarrow> 'w sys \<Rightarrow> (panic + (int \<times> error option)) \<times> 'w sys" where
  "Write P now b pt s =
     (if IsZero (writeDeadline pt) then (let (res, s1) = f_Write P b pt s in (Inr res, s1))
      else
        (let millis = millis_until (writeDeadline pt) now
         in case (if millis \<le> 0
                  then (case addr0 b of
                          Inl e \<Rightarrow> Inl e
                        | Inr _ \<Rightarrow> Inr (sp P (Sp_nonblocking_write (port_p pt) (elems b)) s))
                  else (case addr0 b of
                          Inl e \<Rightarrow> Inl e
                        | Inr _ \<Rightarrow>
                            Inr (sp P (Sp_blocking_write (port_p pt) (elems b) (C_uint millis)) s)))
            of
              Inl e \<Rightarrow> (Inl e, s)
            | Inr (r, s1) \<Rightarrow>
                (let c = ret r
                 in if c < 0 then (Inr (0, errmsg c), s1)
                    else (Inr (c, None), s1))))"

subsection \<open>Counting opens and closes\<close>

text \<open>The number of provider closes in a log.\<close>

fun is_close :: "sp_call \<Rightarrow> bool" where
  "is_close (Sp_close p) = True"
| "is_close _ = False"

definition closes :: "(sp_call \<times> reply) list \<Rightarrow> nat" where
  "closes t = length (filter is_close (map fst t))"

text \<open>
  The number of provider opens in a log that the binding takes for successful: those whose
  status \<open>errmsg\<close> maps to no error.
\<close>

fun opened_ok :: "sp_call \<times> reply \<Rightarrow> bool" where
  "opened_ok (Sp_open p m, r) = (errmsg (ret r) = None)"
| "opened_ok _ = False"

definition opens :: "(sp_call \<times> reply) list \<Rightarrow> nat" where
  "opens t = length (filter opened_ok t)"

section \<open>A provider for one device\<close>

text \<open>
  Modelled from the spec: the Transport Provider (libserialport), whose C sources are not
  among the sources of the binding. It serves one device. The spec gives it a device
  handle that is opened and closed, a configuration structure with per-field get and set
  that never touch the device, \<open>get_config\<close> and \<open>set_config\<close> that copy all settings from
  and to the device in one call, and blocking and non-blocking transfers. The comments of
  the binding on its \<^verbatim>\<open>..._INVALID\<close> constants add that a negative field is a setting to
  be left alone. A call on a port that is not open, or on a structure that does not exist,
  answers ARG; so does a second close. No data ever arrives, and every byte written is
  accepted.
\<close>

record config =
  cfg_baudrate :: int
  cfg_bits :: int
  cfg_parity :: int
  cfg_stopbits :: int
  cfg_rts :: int
  cfg_cts :: int
  cfg_dtr :: int
  cfg_dsr :: int
  cfg_xon_xoff :: int
  cfg_flowcontrol :: int

text \<open>
  The state of the provider: whether the port structure (at address 1) and the
  configuration structure (at address 2, with its content) exist, whether the device
  handle is held, and the settings in force on the device.
\<close>

record device =
  dev_port :: bool
  dev_conf :: "config option"
  dev_open :: bool
  dev_line :: config

definition blank :: config where
  "blank =
     \<lparr>cfg_baudrate = - 1, cfg_bits = - 1, cfg_parity = - 1, cfg_stopbits = - 1,
      cfg_rts = - 1, cfg_cts = - 1, cfg_dtr = - 1, cfg_dsr = - 1, cfg_xon_xoff = - 1,
      cfg_flowcontrol = - 1\<rparr>"

definition keep :: "int \<Rightarrow> int \<Rightarrow> int" where
  "keep new old = (if new < 0 then old else new)"

definition commit :: "config \<Rightarrow> config \<Rightarrow> config" where
  "commit cf line =
     \<lparr>cfg_baudrate = keep (cfg_baudrate cf) (cfg_baudrate line),
      cfg_bits = keep (cfg_bits cf) (cfg_bits line),
      cfg_parity = keep (cfg_parity cf) (cfg_parity line),
      cfg_stopbits = keep (cfg_stopbits cf) (cfg_stopbits line),
      cfg_rts = keep (cfg_rts cf) (cfg_rts line),
      cfg_cts = keep (cfg_cts cf) (cfg_cts line),
      cfg_dtr = keep (cfg_dtr cf) (cfg_dtr line),
      cfg_dsr = keep (cfg_dsr cf) (cfg_dsr line),
      cfg_xon_xoff = keep (cfg_xon_xoff cf) (cfg_xon_xoff line),
      cfg_flowcontrol = keep (cfg_flowcontrol cf) (cfg_flowcontrol line)\<rparr>"

definition answer :: "int \<Rightarrow> reply" where
  "answer code = \<lparr>ret = code, out = 0, ref = 0\<rparr>"

definition is_port :: "device \<Rightarrow> ptr \<Rightarrow> bool" where
  "is_port w p = (p = 1 \<and> dev_port w)"

definition is_open :: "device \<Rightarrow> ptr \<Rightarrow> bool" where
  "is_open w p = (is_port w p \<and> dev_open w)"

definition set_field :: "device \<Rightarrow> ptr \<Rightarrow> (config \<Rightarrow> config) \<Rightarrow> reply \<times> device" where
  "set_field w c upd =
     (case dev_conf w of
        None \<Rightarrow> (answer SP_ERR_ARG, w)
      | Some cf \<Rightarrow>
          if c = 2 then (answer SP_OK, w\<lparr>dev_conf := Some (upd cf)\<rparr>)
          else (answer SP_ERR_ARG, w))"

definition get_field :: "device \<Rightarrow> ptr \<Rightarrow> (config \<Rightarrow> int) \<Rightarrow> reply \<times> device" where
  "get_field w c sel =
     (case dev_conf w of
        None \<Rightarrow> (answer SP_ERR_ARG, w)
      | Some cf \<Rightarrow>
          if c = 2 then ((answer SP_OK)\<lparr>out := sel cf\<rparr>, w)
          else (answer SP_ERR_ARG, w))"

fun serial_device :: "device provider" where
  "serial_device w (Sp_get_port_by_name n) = ((answer SP_OK)\<lparr>ref := 1\<rparr>, w\<lparr>dev_port := True\<rparr>)"
| "serial_device w Sp_new_config = ((answer SP_OK)\<lparr>ref := 2\<rparr>, w\<lparr>dev_conf := Some blank\<rparr>)"
| "serial_device w (Sp_free_port p) =
     (answer SP_OK, if p = 1 then w\<lparr>dev_port := False, dev_open := False\<rparr> else w)"
| "serial_device w (Sp_free_config c) =
     (answer SP_OK, if c = 2 then w\<lparr>dev_conf := None\<rparr> else w)"
| "serial_device w (Sp_open p m) =
     (if is_port w p then (answer SP_OK, w\<lparr>dev_open := True\<rparr>) else (answer SP_ERR_ARG, w))"
| "serial_device w (Sp_close p) =
     (if is_open w p then (answer SP_OK, w\<lparr>dev_open := False\<rparr>) else (answer SP_ERR_ARG, w))"
| "serial_device w (Sp_get_config p c) =
     (if is_open w p then set_field w c (\<lambda>_. dev_line w) else (answer SP_ERR_ARG, w))"
| "serial_device w (Sp_set_config p c) =
     (if is_open w p \<and> c = 2
      then (case dev_conf w of
              None \<Rightarrow> (answer SP_ERR_ARG, w)
            | Some cf \<Rightarrow> (answer SP_OK, w\<lparr>dev_line := commit cf (dev_line w)\<rparr>))
      else (answer SP_ERR_ARG, w))"
| "serial_device w (Sp_get_port_handle p) =
     (if is_open w p then ((answer SP_OK)\<lparr>out := 3\<rparr>, w) else (answer SP_ERR_ARG, w))"
| "serial_device w (Sp_get_port_name p) = (answer SP_OK, w)"
| "serial_device w (Sp_set_baudrate p v) =
     (if is_open w p
      then (answer SP_OK, w\<lparr>dev_line := (dev_line w)\<lparr>cfg_baudrate := sint v\<rparr>\<rparr>)
      else (answer SP_ERR_ARG, w))"
| "serial_device w (Sp_get_config_baudrate c) = get_field w c cfg_baudrate"
| "serial_device w (Sp_set_config_bits c v) = set_field w c (\<lambda>cf. cf\<lparr>cfg_bits := sint v\<rparr>)"
| "serial_device w (Sp_get_config_bits c) = get_field w c cfg_bits"
| "serial_device w (Sp_set_config_parity c v) = set_field w c (\<lambda>cf. cf\<lparr>cfg_parity := sint v\<rparr>)"
| "serial_device w (Sp_get_config_parity c) = get_field w c cfg_parity"
| "serial_device w (Sp_set_config_stopbits c v) =
     set_field w c (\<lambda>cf. cf\<lparr>cfg_stopbits := sint v\<rparr>)"
| "serial_device w (Sp_get_config_stopbits c) = get_field w c cfg_stopbits"
| "serial_device w (Sp_set_config_rts c v) = set_field w c (\<lambda>cf. cf\<lparr>cfg_rts := sint v\<rparr>)"
| "serial_device w (Sp_get_config_rts c) = get_field w c cfg_rts"
| "serial_device w (Sp_set_config_cts c v) = set_field w c (\<lambda>cf. cf\<lparr>cfg_cts := sint v\<rparr>)"
| "serial_device w (Sp_get_config_cts c) = get_field w c cfg_cts"
| "serial_device w (Sp_set_config_dtr c v) = set_field w c (\<lambda>cf. cf\<lparr>cfg_dtr := sint v\<rparr>)"
| "serial_device w (Sp_get_config_dtr c) = get_field w c cfg_dtr"
| "serial_device w (Sp_set_config_dsr c v) = set_field w c (\<lambda>cf. cf\<lparr>cfg_dsr := sint v\<rparr>)"
| "serial_device w (Sp_get_config_dsr c) = get_field w c cfg_dsr"
| "serial_device w (Sp_set_config_xon_xoff c v) =
     set_field w c (\<lambda>cf. cf\<lparr>cfg_xon_xoff := sint v\<rparr>)"
| "serial_device w (Sp_get_config_xon_xoff c) = get_field w c cfg_xon_xoff"
| "serial_device w (Sp_set_config_flowcontrol c v) =
     set_field w c (\<lambda>cf. cf\<lparr>cfg_flowcontrol := sint v\<rparr>)"
| "serial_device w (Sp_nonblocking_read p n) =
     (if is_open w p then (answer 0, w) else (answer SP_ERR_ARG, w))"
| "serial_device w (Sp_blocking_read p n t) =
     (if is_open w p then (answer 0, w) else (answer SP_ERR_ARG, w))"
| "serial_device w (Sp_nonblocking_write p bs) =
     (if is_open w p then (answer (int (length bs)), w) else (answer SP_ERR_ARG, w))"
| "serial_device w (Sp_blocking_write p bs t) =
     (if is_open w p then (answer (int (length bs)), w) else (answer SP_ERR_ARG, w))"
| "serial_device w (File_Read fd n) = (answer 0, w)"
| "serial_device w (File_Write fd bs) = (answer (int (length bs)), w)"

text \<open>
  A device whose line runs at 115200 baud, 8 data bits, no parity, 1 stop bit, with no
  structure allocated yet, and the system before any call.
\<close>

definition line_115200 :: config where
  "line_115200 =
     \<lparr>cfg_baudrate = 115200, cfg_bits = 8, cfg_parity = 0, cfg_stopbits = 1,
      cfg_rts = 0, cfg_cts = 0, cfg_dtr = 0, cfg_dsr = 0, cfg_xon_xoff = 0,
      cfg_flowcontrol = 0\<rparr>"

definition boot :: "config \<Rightarrow> device sys" where
  "boot line =
     \<lparr>world = \<lparr>dev_port = False, dev_conf = None, dev_open = False, dev_line = line\<rparr>,
      trace = []\<rparr>"

definition no_options :: Options where
  "no_options =
     \<lparr>optMode = 0, optBaudrate = 0, optDataBits = 0, optStopBits = 0, optParity = 0,
      optFlowControl = 0\<rparr>"

text \<open>
  The port and the device that \<^verbatim>\<open>Open\<close> with no options leaves on that device, and the
  system with that device and an empty log.
\<close>

definition ready_port :: Port where
  "ready_port =
     \<lparr>port_name = [], port_p = 1, port_c = 2, port_f = Some 3, port_fd = 3,
      opened = True, readDeadline = 0, writeDeadline = 0\<rparr>"

definition ready_device :: device where
  "ready_device =
     \<lparr>dev_port = True, dev_conf = Some line_115200, dev_open = True, dev_line = line_115200\<rparr>"

definition ready_sys :: "device sys" where
  "ready_sys = \<lparr>world = ready_device, trace = []\<rparr>"

section \<open>A provider that replays replies\<close>

text \<open>
  Modelled from the spec: a test double for the Transport Provider (the spec's ``provider
  mock''), used where a device has to fail at a chosen call. Its state is the list of
  replies still to give; once the list is used up it answers FAIL.
\<close>

fun replay :: "reply list provider" where
  "replay [] call = (answer SP_ERR_FAIL, [])"
| "replay (r # rs) call = (r, rs)"

section \<open>Basic facts\<close>

lemma sp_fst: "fst (sp P call s) = fst (P (world s) call)"
  by (simp add: sp_def split: prod.splits)

lemma sp_world: "world (snd (sp P call s)) = snd (P (world s) call)"
  by (simp add: sp_def split: prod.splits)

lemma sp_trace: "trace (snd (sp P call s)) = trace s @ [(call, fst (P (world s) call))]"
  by (simp add: sp_def split: prod.splits)

lemmas sp_return_defs = SP_OK_def SP_ERR_ARG_def SP_ERR_FAIL_def SP_ERR_MEM_def SP_ERR_SUPP_def

lemma go_div_nonneg: "0 \<le> a \<Longrightarrow> 0 < b \<Longrightarrow> go_div a b = a div b"
  by (cases "a = 0") (simp_all add: go_div_def)

lemma go_div_neg: "a < 0 \<Longrightarrow> 0 < b \<Longrightarrow> go_div a b = - ((- a) div b)"
  by (simp add: go_div_def)

text \<open>
  The whole milliseconds until the deadline are at most zero exactly when less than one
  millisecond remains, and are the remaining time divided by a million, rounded down, when
  the deadline is ahead.
\<close>

lemma millis_until_le0: "millis_until d now \<le> 0 \<longleftrightarrow> d - now < 1000000"
proof (cases "0 \<le> Sub d now")
  case True
  then have "millis_until d now = Sub d now div 1000000"
    by (simp add: millis_until_def Nanoseconds_def Millisecond_def go_div_nonneg)
  moreover have "Sub d now div 1000000 \<le> 0 \<longleftrightarrow> Sub d now < 1000000"
    using pos_imp_zdiv_pos_iff [of 1000000 "Sub d now"] by linarith
  moreover have "Sub d now < 1000000 \<longleftrightarrow> d - now < 1000000"
    by (simp add: Sub_def Let_def minDuration_def maxDuration_def)
  ultimately show ?thesis by simp
next
  case False
  then have neg: "Sub d now < 0" by simp
  then have "millis_until d now = - ((- Sub d now) div 1000000)"
    by (simp add: millis_until_def Nanoseconds_def Millisecond_def go_div_neg)
  moreover have "0 \<le> (- Sub d now) div 1000000"
    using neg by (simp add: pos_imp_zdiv_nonneg_iff)
  moreover have "d - now < 1000000"
    using neg by (simp add: Sub_def Let_def minDuration_def maxDuration_def split: if_splits)
  ultimately show ?thesis by simp
qed

lemma millis_until_pos:
  assumes "0 \<le> d - now" "d - now \<le> maxDuration"
  shows "millis_until d now = (d - now) div 1000000"
proof -
  have "Sub d now = d - now"
    using assms by (simp add: Sub_def Let_def minDuration_def maxDuration_def)
  then show ?thesis
    using assms by (simp add: millis_until_def Nanoseconds_def Millisecond_def go_div_nonneg)
qed

lemma C_uint_exact: "0 \<le> m \<Longrightarrow> m < 2 ^ 32 \<Longrightarrow> uint (C_uint m) = m"
  by (simp add: C_uint_def uint_word_of_int take_bit_int_eq_self)

section \<open>The error mapper\<close>

text \<open>
  C9, as stated: ARG, FAIL, MEM and SUPP map to the four errors, OK and the other
  non-negative codes to no error, and any other negative code to the system error. The
  last part fails: \<open>errmsg\<close> has no case for another negative code and returns nil for it,
  here for the code \<open>-5\<close>.
\<close>

theorem errmsg_unknown_negative_counterexample:
  "(- 5 :: int) < 0 \<and> errmsg (- 5) = None \<and> errmsg (- 5) \<noteq> Some SystemError"
  by (simp add: errmsg_def sp_return_defs)

text \<open>
  C9, amended: \<open>errmsg\<close> is a total function of the status code. ARG maps to the invalid
  arguments error, FAIL to the system error, MEM to the memory allocation error, SUPP to
  the unsupported operation error, and OK and every other code, negative or not, to no
  error.
\<close>

theorem errmsg_table:
  "errmsg SP_ERR_ARG = Some InvalidArgumentsError \<and>
   errmsg SP_ERR_FAIL = Some SystemError \<and>
   errmsg SP_ERR_MEM = Some MemoryAllocationError \<and>
   errmsg SP_ERR_SUPP = Some UnsupportedOperationError \<and>
   errmsg SP_OK = None \<and>
   (\<forall>code. code \<notin> {SP_ERR_ARG, SP_ERR_FAIL, SP_ERR_MEM, SP_ERR_SUPP} \<longrightarrow> errmsg code = None)"
  by (simp add: errmsg_def sp_return_defs)

theorem errmsg_table_witness:
  "(- 5 :: int) \<notin> {SP_ERR_ARG, SP_ERR_FAIL, SP_ERR_MEM, SP_ERR_SUPP} \<and> errmsg (- 5) = None \<and>
   (7 :: int) \<notin> {SP_ERR_ARG, SP_ERR_FAIL, SP_ERR_MEM, SP_ERR_SUPP} \<and> errmsg 7 = None"
proof -
  have a: "(- 5 :: int) \<notin> {SP_ERR_ARG, SP_ERR_FAIL, SP_ERR_MEM, SP_ERR_SUPP}"
    by (simp add: sp_return_defs)
  have b: "(7 :: int) \<notin> {SP_ERR_ARG, SP_ERR_FAIL, SP_ERR_MEM, SP_ERR_SUPP}"
    by (simp add: sp_return_defs)
  from errmsg_table a b show ?thesis by blast
qed

section \<open>Reading and writing\<close>

lemma Read_empty: "readDeadline pt \<noteq> 0 \<Longrightarrow> elems b = [] \<Longrightarrow> Read P now b pt s = (Inl IndexOutOfRange, s)"
  by (simp add: Read_def IsZero_def addr0_def Let_def)

lemma Write_empty: "writeDeadline pt \<noteq> 0 \<Longrightarrow> elems b = [] \<Longrightarrow> Write P now b pt s = (Inl IndexOutOfRange, s)"
  by (simp add: Write_def IsZero_def addr0_def Let_def)

text \<open>
  C10: with a nonzero read (write) deadline, \<^verbatim>\<open>Read\<close> (\<^verbatim>\<open>Write\<close>) on a buffer of length
  zero panics at \<^verbatim>\<open>&b[0]\<close>, in the branch of the non-blocking call as in that of the
  blocking one, before any call is issued; it does not return zero bytes. The deadline is
  set through the public methods \<^verbatim>\<open>SetReadDeadline\<close>, \<^verbatim>\<open>SetWriteDeadline\<close> and
  \<^verbatim>\<open>SetDeadline\<close>, so the panic is reachable from outside the package.
\<close>

theorem zero_length_buffer_panics:
  "(readDeadline pt \<noteq> 0 \<and> elems b = [] \<longrightarrow> Read P now b pt s = (Inl IndexOutOfRange, s)) \<and>
   (writeDeadline pt \<noteq> 0 \<and> elems b = [] \<longrightarrow> Write P now b pt s = (Inl IndexOutOfRange, s)) \<and>
   (t \<noteq> 0 \<longrightarrow>
      Read P now \<lparr>elems = [], cap = k\<rparr> (snd (SetReadDeadline t pt)) s = (Inl IndexOutOfRange, s) \<and>
      Write P now \<lparr>elems = [], cap = k\<rparr> (snd (SetWriteDeadline t pt)) s = (Inl IndexOutOfRange, s) \<and>
      Read P now \<lparr>elems = [], cap = k\<rparr> (snd (SetDeadline t pt)) s = (Inl IndexOutOfRange, s) \<and>
      Write P now \<lparr>elems = [], cap = k\<rparr> (snd (SetDeadline t pt)) s = (Inl IndexOutOfRange, s))"
  by (simp add: Read_empty Write_empty SetReadDeadline_def SetWriteDeadline_def SetDeadline_def)

theorem zero_length_buffer_panics_witness:
  "readDeadline (snd (SetDeadline 1000 ready_port)) \<noteq> 0 \<and>
   writeDeadline (snd (SetDeadline 1000 ready_port)) \<noteq> 0 \<and>
   elems \<lparr>elems = [], cap = 0\<rparr> = [] \<and> (1000 :: int) \<noteq> 0 \<and>
   Read serial_device 2000 \<lparr>elems = [], cap = 0\<rparr> (snd (SetDeadline 1000 ready_port)) ready_sys
     = (Inl IndexOutOfRange, ready_sys) \<and>
   Write serial_device 2000 \<lparr>elems = [], cap = 0\<rparr> (snd (SetDeadline 1000 ready_port)) ready_sys
     = (Inl IndexOutOfRange, ready_sys) \<and>
   Read serial_device 2000 \<lparr>elems = [], cap = 0\<rparr> (snd (SetReadDeadline 1000 ready_port)) ready_sys
     = (Inl IndexOutOfRange, ready_sys) \<and>
   Write serial_device 2000 \<lparr>elems = [], cap = 0\<rparr> (snd (SetWriteDeadline 1000 ready_port)) ready_sys
     = (Inl IndexOutOfRange, ready_sys)"
  using zero_length_buffer_panics [where pt = "snd (SetDeadline 1000 ready_port)"
      and b = "\<lparr>elems = [], cap = 0\<rparr>" and P = serial_device and now = 2000 and s = ready_sys
      and t = 1000 and k = 0]
    zero_length_buffer_panics [where pt = ready_port
      and b = "\<lparr>elems = [], cap = 0\<rparr>" and P = serial_device and now = 2000 and s = ready_sys
      and t = 1000 and k = 0]
  by (simp add: SetDeadline_def)

lemma sp_pair:
  "sp P call s =
     (fst (P (world s) call),
      \<lparr>world = snd (P (world s) call), trace = trace s @ [(call, fst (P (world s) call))]\<rparr>)"
  by (simp add: sp_def split: prod.splits)

lemma Read_unset:
  "readDeadline pt = 0 \<Longrightarrow> port_f pt = Some fd \<Longrightarrow>
   Read P now b pt s =
     (Inr (file_result (fst (P (world s) (File_Read fd (length (elems b)))))),
      snd (sp P (File_Read fd (length (elems b))) s))"
  by (simp add: Read_def IsZero_def f_Read_def sp_def split: prod.splits)

lemma Write_unset:
  "writeDeadline pt = 0 \<Longrightarrow> port_f pt = Some fd \<Longrightarrow>
   Write P now b pt s =
     (Inr (file_result (fst (P (world s) (File_Write fd (elems b))))),
      snd (sp P (File_Write fd (elems b)) s))"
  by (simp add: Write_def IsZero_def f_Write_def sp_def split: prod.splits)

lemma Read_nonblocking:
  "readDeadline pt \<noteq> 0 \<Longrightarrow> millis_until (readDeadline pt) now \<le> 0 \<Longrightarrow> elems b \<noteq> [] \<Longrightarrow>
   snd (Read P now b pt s) = snd (sp P (Sp_nonblocking_read (port_p pt) (length (elems b))) s)"
  by (simp add: Read_def IsZero_def addr0_def Let_def split: prod.splits)

lemma Read_blocking:
  "readDeadline pt \<noteq> 0 \<Longrightarrow> 0 < millis_until (readDeadline pt) now \<Longrightarrow> elems b \<noteq> [] \<Longrightarrow>
   snd (Read P now b pt s) =
     snd (sp P (Sp_blocking_read (port_p pt) (length (elems b))
                  (C_uint (millis_until (readDeadline pt) now))) s)"
  by (simp add: Read_def IsZero_def addr0_def Let_def split: prod.splits)

lemma Write_nonblocking:
  "writeDeadline pt \<noteq> 0 \<Longrightarrow> millis_until (writeDeadline pt) now \<le> 0 \<Longrightarrow> elems b \<noteq> [] \<Longrightarrow>
   snd (Write P now b pt s) = snd (sp P (Sp_nonblocking_write (port_p pt) (elems b)) s)"
  by (simp add: Write_def IsZero_def addr0_def Let_def split: prod.splits)

lemma Write_blocking:
  "writeDeadline pt \<noteq> 0 \<Longrightarrow> 0 < millis_until (writeDeadline pt) now \<Longrightarrow> elems b \<noteq> [] \<Longrightarrow>
   snd (Write P now b pt s) =
     snd (sp P (Sp_blocking_write (port_p pt) (elems b)
                  (C_uint (millis_until (writeDeadline pt) now))) s)"
  by (simp add: Write_def IsZero_def addr0_def Let_def split: prod.splits)

lemma Read_nonblocking_result:
  "readDeadline pt \<noteq> 0 \<Longrightarrow> millis_until (readDeadline pt) now \<le> 0 \<Longrightarrow> elems b \<noteq> [] \<Longrightarrow>
   ret (fst (P (world s) (Sp_nonblocking_read (port_p pt) (length (elems b))))) = 0 \<Longrightarrow>
   fst (Read P now b pt s) = Inr (0, None)"
  by (simp add: Read_def IsZero_def addr0_def Let_def sp_pair)

lemma Write_nonblocking_result:
  "writeDeadline pt \<noteq> 0 \<Longrightarrow> millis_until (writeDeadline pt) now \<le> 0 \<Longrightarrow> elems b \<noteq> [] \<Longrightarrow>
   ret (fst (P (world s) (Sp_nonblocking_write (port_p pt) (elems b)))) = 0 \<Longrightarrow>
   fst (Write P now b pt s) = Inr (0, None)"
  by (simp add: Write_def IsZero_def addr0_def Let_def sp_pair)

lemma millis_past: "d \<le> now \<Longrightarrow> millis_until d now \<le> 0"
  by (simp add: millis_until_le0)

text \<open>
  C5: a \<^verbatim>\<open>Read\<close> or \<^verbatim>\<open>Write\<close> whose deadline is set and is at or before the current time
  issues the non-blocking transfer; when the provider answers zero bytes, the method
  returns zero bytes and a nil error. (The buffer is not empty: on an empty buffer no
  transfer is issued, see C10.)
\<close>

theorem past_deadline_zero_bytes_is_success:
  "(readDeadline pt \<noteq> 0 \<and> readDeadline pt \<le> now \<and> elems b \<noteq> [] \<and>
    ret (fst (P (world s) (Sp_nonblocking_read (port_p pt) (length (elems b))))) = 0
    \<longrightarrow> fst (Read P now b pt s) = Inr (0, None) \<and>
        map fst (trace (snd (Read P now b pt s))) =
          map fst (trace s) @ [Sp_nonblocking_read (port_p pt) (length (elems b))]) \<and>
   (writeDeadline pt \<noteq> 0 \<and> writeDeadline pt \<le> now \<and> elems b \<noteq> [] \<and>
    ret (fst (P (world s) (Sp_nonblocking_write (port_p pt) (elems b)))) = 0
    \<longrightarrow> fst (Write P now b pt s) = Inr (0, None) \<and>
        map fst (trace (snd (Write P now b pt s))) =
          map fst (trace s) @ [Sp_nonblocking_write (port_p pt) (elems b)])"
  by (simp add: Read_nonblocking_result Write_nonblocking_result Read_nonblocking
      Write_nonblocking millis_past sp_trace)


theorem past_deadline_zero_bytes_is_success_witness:
  "readDeadline (snd (SetDeadline 1000 ready_port)) \<noteq> 0 \<and>
   readDeadline (snd (SetDeadline 1000 ready_port)) \<le> 2000 \<and>
   writeDeadline (snd (SetDeadline 1000 ready_port)) \<noteq> 0 \<and>
   writeDeadline (snd (SetDeadline 1000 ready_port)) \<le> 2000 \<and>
   elems \<lparr>elems = [65], cap = 1\<rparr> \<noteq> [] \<and>
   ret (fst (replay (world \<lparr>world = [answer 0], trace = []\<rparr>) (Sp_nonblocking_read 1 1))) = 0 \<and>
   ret (fst (replay (world \<lparr>world = [answer 0], trace = []\<rparr>) (Sp_nonblocking_write 1 [65]))) = 0 \<and>
   fst (Read replay 2000 \<lparr>elems = [65], cap = 1\<rparr> (snd (SetDeadline 1000 ready_port))
          \<lparr>world = [answer 0], trace = []\<rparr>) = Inr (0, None) \<and>
   fst (Write replay 2000 \<lparr>elems = [65], cap = 1\<rparr> (snd (SetDeadline 1000 ready_port))
          \<lparr>world = [answer 0], trace = []\<rparr>) = Inr (0, None)"
  using past_deadline_zero_bytes_is_success [where pt = "snd (SetDeadline 1000 ready_port)"
      and now = 2000 and b = "\<lparr>elems = [65], cap = 1\<rparr>" and P = replay
      and s = "\<lparr>world = [answer 0], trace = []\<rparr>"]
  by (simp add: SetDeadline_def ready_port_def answer_def)

lemma millis_ahead:
  assumes "1000000 \<le> d - now" "d - now < 2 ^ 32 * 1000000"
  shows "millis_until d now = (d - now) div 1000000"
    and "0 < millis_until d now"
    and "uint (C_uint (millis_until d now)) = (d - now) div 1000000"
proof -
  show eq: "millis_until d now = (d - now) div 1000000"
    using assms by (intro millis_until_pos) (simp_all add: maxDuration_def)
  show pos: "0 < millis_until d now"
    using assms millis_until_le0 [of d now] by linarith
  have "(d - now) div 1000000 < 2 ^ 32"
    using assms by (simp add: div_less_iff_less_mult)
  with pos eq show "uint (C_uint (millis_until d now)) = (d - now) div 1000000"
    by (simp add: C_uint_exact)
qed

text \<open>
  C1, amended: the transfer is selected by the deadline of the direction and by the whole
  milliseconds that remain. With the deadline unset, the unbounded blocking transfer of the
  file is issued. With the deadline set and less than one millisecond remaining (the time
  is up, or less than 1000000 nanoseconds are left), the non-blocking transfer is
  issued. With at least one millisecond remaining, the bounded blocking transfer is issued
  with the remaining time in whole milliseconds, rounded down, as its timeout. This is
  for a port with a file, a buffer that is not empty, and a remaining time below
  \<open>2 ^ 32\<close> milliseconds, which is what the C \<^verbatim>\<open>unsigned int\<close> of the timeout holds.
\<close>

theorem transfer_mode_by_deadline:
  "(readDeadline pt = 0 \<and> port_f pt = Some fd \<longrightarrow>
      map fst (trace (snd (Read P now b pt s))) =
        map fst (trace s) @ [File_Read fd (length (elems b))]) \<and>
   (readDeadline pt \<noteq> 0 \<and> readDeadline pt - now < 1000000 \<and> elems b \<noteq> [] \<longrightarrow>
      map fst (trace (snd (Read P now b pt s))) =
        map fst (trace s) @ [Sp_nonblocking_read (port_p pt) (length (elems b))]) \<and>
   (readDeadline pt \<noteq> 0 \<and> 1000000 \<le> readDeadline pt - now \<and>
    readDeadline pt - now < 2 ^ 32 * 1000000 \<and> elems b \<noteq> [] \<longrightarrow>
      map fst (trace (snd (Read P now b pt s))) =
        map fst (trace s) @
          [Sp_blocking_read (port_p pt) (length (elems b))
             (C_uint (millis_until (readDeadline pt) now))] \<and>
      uint (C_uint (millis_until (readDeadline pt) now)) = (readDeadline pt - now) div 1000000) \<and>
   (writeDeadline pt = 0 \<and> port_f pt = Some fd \<longrightarrow>
      map fst (trace (snd (Write P now b pt s))) =
        map fst (trace s) @ [File_Write fd (elems b)]) \<and>
   (writeDeadline pt \<noteq> 0 \<and> writeDeadline pt - now < 1000000 \<and> elems b \<noteq> [] \<longrightarrow>
      map fst (trace (snd (Write P now b pt s))) =
        map fst (trace s) @ [Sp_nonblocking_write (port_p pt) (elems b)]) \<and>
   (writeDeadline pt \<noteq> 0 \<and> 1000000 \<le> writeDeadline pt - now \<and>
    writeDeadline pt - now < 2 ^ 32 * 1000000 \<and> elems b \<noteq> [] \<longrightarrow>
      map fst (trace (snd (Write P now b pt s))) =
        map fst (trace s) @
          [Sp_blocking_write (port_p pt) (elems b)
             (C_uint (millis_until (writeDeadline pt) now))] \<and>
      uint (C_uint (millis_until (writeDeadline pt) now)) = (writeDeadline pt - now) div 1000000)"
proof -
  have r0: "map fst (trace (snd (Read P now b pt s))) =
      map fst (trace s) @ [File_Read fd (length (elems b))]"
    if "readDeadline pt = 0" "port_f pt = Some fd"
    using that by (simp add: Read_unset sp_trace)
  have r1: "map fst (trace (snd (Read P now b pt s))) =
      map fst (trace s) @ [Sp_nonblocking_read (port_p pt) (length (elems b))]"
    if "readDeadline pt \<noteq> 0" "readDeadline pt - now < 1000000" "elems b \<noteq> []"
    using that by (simp add: Read_nonblocking millis_until_le0 sp_trace)
  have r2: "map fst (trace (snd (Read P now b pt s))) =
      map fst (trace s) @
        [Sp_blocking_read (port_p pt) (length (elems b))
           (C_uint (millis_until (readDeadline pt) now))] \<and>
      uint (C_uint (millis_until (readDeadline pt) now)) = (readDeadline pt - now) div 1000000"
    if "readDeadline pt \<noteq> 0" "1000000 \<le> readDeadline pt - now"
      "readDeadline pt - now < 2 ^ 32 * 1000000" "elems b \<noteq> []"
    using that millis_ahead(2,3) [where d = "readDeadline pt" and now = now]
    by (simp add: Read_blocking sp_trace)
  have w0: "map fst (trace (snd (Write P now b pt s))) =
      map fst (trace s) @ [File_Write fd (elems b)]"
    if "writeDeadline pt = 0" "port_f pt = Some fd"
    using that by (simp add: Write_unset sp_trace)
  have w1: "map fst (trace (snd (Write P now b pt s))) =
      map fst (trace s) @ [Sp_nonblocking_write (port_p pt) (elems b)]"
    if "writeDeadline pt \<noteq> 0" "writeDeadline pt - now < 1000000" "elems b \<noteq> []"
    using that by (simp add: Write_nonblocking millis_until_le0 sp_trace)
  have w2: "map fst (trace (snd (Write P now b pt s))) =
      map fst (trace s) @
        [Sp_blocking_write (port_p pt) (elems b)
           (C_uint (millis_until (writeDeadline pt) now))] \<and>
      uint (C_uint (millis_until (writeDeadline pt) now)) = (writeDeadline pt - now) div 1000000"
    if "writeDeadline pt \<noteq> 0" "1000000 \<le> writeDeadline pt - now"
      "writeDeadline pt - now < 2 ^ 32 * 1000000" "elems b \<noteq> []"
    using that millis_ahead(2,3) [where d = "writeDeadline pt" and now = now]
    by (simp add: Write_blocking sp_trace)
  from r0 r1 r2 w0 w1 w2 show ?thesis by blast
qed

theorem transfer_mode_by_deadline_witness:
  "readDeadline ready_port = 0 \<and> writeDeadline ready_port = 0 \<and> port_f ready_port = Some 3 \<and>
   map fst (trace (snd (Read serial_device 5000000 \<lparr>elems = [65], cap = 1\<rparr> ready_port ready_sys)))
     = [File_Read 3 1] \<and>
   map fst (trace (snd (Write serial_device 5000000 \<lparr>elems = [65], cap = 1\<rparr> ready_port ready_sys)))
     = [File_Write 3 [65]] \<and>
   (5000000 :: int) \<noteq> 0 \<and> (5000000 :: int) - 5000000 < 1000000 \<and>
   map fst (trace (snd (Read serial_device 5000000 \<lparr>elems = [65], cap = 1\<rparr>
                         (snd (SetDeadline 5000000 ready_port)) ready_sys)))
     = [Sp_nonblocking_read 1 1] \<and>
   map fst (trace (snd (Write serial_device 5000000 \<lparr>elems = [65], cap = 1\<rparr>
                         (snd (SetDeadline 5000000 ready_port)) ready_sys)))
     = [Sp_nonblocking_write 1 [65]] \<and>
   (1000000 :: int) \<le> 5000000 - 2500000 \<and> (5000000 :: int) - 2500000 < 2 ^ 32 * 1000000 \<and>
   map fst (trace (snd (Read serial_device 2500000 \<lparr>elems = [65], cap = 1\<rparr>
                         (snd (SetDeadline 5000000 ready_port)) ready_sys)))
     = [Sp_blocking_read 1 1 2] \<and>
   map fst (trace (snd (Write serial_device 2500000 \<lparr>elems = [65], cap = 1\<rparr>
                         (snd (SetDeadline 5000000 ready_port)) ready_sys)))
     = [Sp_blocking_write 1 [65] 2]"
proof -
  have two: "C_uint (millis_until 5000000 2500000) = 2"
    using millis_ahead(1) [where d = 5000000 and now = 2500000] by (simp add: C_uint_def)
  show ?thesis
    using transfer_mode_by_deadline [where pt = ready_port and fd = 3 and P = serial_device
        and now = 5000000 and b = "\<lparr>elems = [65], cap = 1\<rparr>" and s = ready_sys]
      transfer_mode_by_deadline [where pt = "snd (SetDeadline 5000000 ready_port)" and fd = 3
        and P = serial_device and now = 5000000 and b = "\<lparr>elems = [65], cap = 1\<rparr>"
        and s = ready_sys]
      transfer_mode_by_deadline [where pt = "snd (SetDeadline 5000000 ready_port)" and fd = 3
        and P = serial_device and now = 2500000 and b = "\<lparr>elems = [65], cap = 1\<rparr>"
        and s = ready_sys]
    by (simp add: SetDeadline_def ready_port_def ready_sys_def two)
qed

text \<open>
  C1, as stated: a remaining time that is strictly positive selects the bounded blocking
  transfer. It fails for a deadline less than a millisecond ahead: with 500000 nanoseconds
  remaining the whole milliseconds are zero, and \<^verbatim>\<open>Read\<close> issues the non-blocking
  transfer.
\<close>

theorem submillisecond_deadline_counterexample:
  "readDeadline (snd (SetReadDeadline 1000500000 ready_port)) \<noteq> 0 \<and>
   0 < readDeadline (snd (SetReadDeadline 1000500000 ready_port)) - 1000000000 \<and>
   map fst (trace (snd (Read serial_device 1000000000 \<lparr>elems = [65], cap = 1\<rparr>
                         (snd (SetReadDeadline 1000500000 ready_port)) ready_sys)))
     = [Sp_nonblocking_read 1 1]"
  by (simp add: SetReadDeadline_def ready_port_def ready_sys_def Read_nonblocking
      millis_until_le0 sp_trace)

section \<open>Closing and releasing\<close>

lemma sp_closes:
  "closes (trace (snd (sp P call s))) = closes (trace s) + (if is_close call then 1 else 0)"
  by (simp add: sp_pair closes_def)

lemma setter_snd: "snd (setter P call s) = snd (sp P call s)"
  by (simp add: setter_def sp_pair)

lemma setter_fst: "fst (setter P call s) = errmsg (ret (fst (P (world s) call)))"
  by (simp add: setter_def sp_pair)

lemma getter_snd: "snd (getter P call s) = snd (sp P call s)"
  by (simp add: getter_def sp_pair split: option.splits)

lemma Close_eq:
  "Close P pt s =
     (errmsg (ret (fst (P (world s) (Sp_close (port_p pt))))), pt\<lparr>opened := False\<rparr>,
      snd (sp P (Sp_close (port_p pt)) s))"
  by (simp add: Close_def sp_pair)

lemmas config_setter_defs = SetBaudrate_def SetDataBits_def SetStopBits_def SetParity_def
  SetRTS_def SetCTS_def SetDTR_def SetDSR_def SetXonXoff_def SetFlowControl_def ApplyConfig_def

text \<open>
  C6, as stated: a \<^verbatim>\<open>Close\<close> of a port that is already closed is a no-op that returns
  success. It fails on the device: the first \<^verbatim>\<open>Close\<close> of an open port succeeds, the
  second one calls the provider again and returns the error of that call.
\<close>

theorem Close_twice_counterexample:
  "opened ready_port \<and>
   fst (Close serial_device ready_port ready_sys) = None \<and>
   fst (Close serial_device (fst (snd (Close serial_device ready_port ready_sys)))
          (snd (snd (Close serial_device ready_port ready_sys)))) = Some InvalidArgumentsError \<and>
   map fst (trace (snd (snd
     (Close serial_device (fst (snd (Close serial_device ready_port ready_sys)))
          (snd (snd (Close serial_device ready_port ready_sys))))))) = [Sp_close 1, Sp_close 1]"
  by (simp add: Close_eq sp_pair ready_port_def ready_sys_def ready_device_def is_open_def
      is_port_def answer_def errmsg_def sp_return_defs)

text \<open>
  C6, amended: \<^verbatim>\<open>Close\<close> is idempotent on the port structure only. Every \<^verbatim>\<open>Close\<close>,
  whatever the state of the port, invokes the provider close on the port handle, clears
  the flag \<^verbatim>\<open>opened\<close> and returns the mapped status of that call: a second \<^verbatim>\<open>Close\<close>
  leaves the structure as the first one left it, issues a second provider close, and
  returns success exactly when the provider reports no error for it.
\<close>

theorem Close_passes_through:
  "(case Close P pt s of
      (e1, pt1, s1) \<Rightarrow>
        e1 = errmsg (ret (fst (P (world s) (Sp_close (port_p pt))))) \<and>
        pt1 = pt\<lparr>opened := False\<rparr> \<and>
        (case Close P pt1 s1 of
           (e2, pt2, s2) \<Rightarrow>
             e2 = errmsg (ret (fst (P (world s1) (Sp_close (port_p pt))))) \<and>
             pt2 = pt1 \<and>
             map fst (trace s2) = map fst (trace s) @ [Sp_close (port_p pt), Sp_close (port_p pt)] \<and>
             closes (trace s2) = closes (trace s) + 2))"
  by (simp add: Close_eq sp_pair closes_def)

lemma free_trace:
  "map fst (trace (snd (free P pt s))) =
     map fst (trace s) @
       (if opened pt then [Sp_close (port_p pt)] else []) @
       (if port_p pt \<noteq> 0 then [Sp_free_port (port_p pt)] else []) @
       (if port_c pt \<noteq> 0 then [Sp_free_config (port_c pt)] else [])"
  by (simp add: free_def Let_def sp_trace)

lemma free_closes:
  "closes (trace (snd (free P pt s))) = closes (trace s) + (if opened pt then 1 else 0)"
  by (simp add: closes_def free_trace)

lemma free_port: "fst (free P pt s) = pt\<lparr>opened := False, port_p := 0, port_c := 0\<rparr>"
  by (simp add: free_def Let_def)

lemma free_again:
  "\<not> opened pt \<Longrightarrow> port_p pt = 0 \<Longrightarrow> port_c pt = 0 \<Longrightarrow> free P pt s = (pt, s)"
  by (simp add: free_def)

lemma free_idem: "free P (fst (free P pt s)) (snd (free P pt s)) = free P pt s"
proof -
  have "free P (fst (free P pt s)) (snd (free P pt s)) = (fst (free P pt s), snd (free P pt s))"
    by (rule free_again) (simp_all add: free_port)
  then show ?thesis by simp
qed

lemma newSerialPort_closed: "newSerialPort P p s = (Inr pt, s1) \<Longrightarrow> \<not> opened pt"
  by (auto simp: newSerialPort_def sp_pair Port_lit_def split: option.splits)

text \<open>
  C7: the finalizer \<^verbatim>\<open>free\<close> after \<^verbatim>\<open>Close\<close> does not invoke the provider close again:
  \<^verbatim>\<open>Close\<close> and the \<^verbatim>\<open>free\<close> that follows make one provider close between them. \<^verbatim>\<open>free\<close> is
  idempotent: a second \<^verbatim>\<open>free\<close> changes neither the port nor the system and issues no
  call. On a port that was never opened, in particular one fresh from \<^verbatim>\<open>newSerialPort\<close>,
  \<^verbatim>\<open>free\<close> issues no close and releases each structure that exists once.
\<close>

theorem free_releases_once:
  "closes (trace (snd (free P (fst (snd (Close P pt s))) (snd (snd (Close P pt s)))))) =
     closes (trace (snd (snd (Close P pt s)))) \<and>
   closes (trace (snd (snd (Close P pt s)))) = closes (trace s) + 1 \<and>
   free P (fst (free P pt s)) (snd (free P pt s)) = free P pt s \<and>
   trace (snd (free P (fst (free P pt s)) (snd (free P pt s)))) = trace (snd (free P pt s)) \<and>
   (\<not> opened pt \<longrightarrow>
      closes (trace (snd (free P pt s))) = closes (trace s) \<and>
      map fst (trace (snd (free P pt s))) =
        map fst (trace s) @
          (if port_p pt \<noteq> 0 then [Sp_free_port (port_p pt)] else []) @
          (if port_c pt \<noteq> 0 then [Sp_free_config (port_c pt)] else [])) \<and>
   (newSerialPort P p s = (Inr pt, s1) \<longrightarrow>
      \<not> opened pt \<and> closes (trace (snd (free P pt s1))) = closes (trace s1)) \<and>
   \<not> opened (fst (free P pt s)) \<and> port_p (fst (free P pt s)) = 0 \<and> port_c (fst (free P pt s)) = 0"
proof -
  have a: "closes (trace (snd (free P (fst (snd (Close P pt s))) (snd (snd (Close P pt s)))))) =
      closes (trace (snd (snd (Close P pt s))))"
    by (simp add: free_closes Close_eq)
  have b: "closes (trace (snd (snd (Close P pt s)))) = closes (trace s) + 1"
    by (simp add: Close_eq sp_closes)
  have c: "free P (fst (free P pt s)) (snd (free P pt s)) = free P pt s"
    by (rule free_idem)
  have d: "\<not> opened pt \<longrightarrow>
      closes (trace (snd (free P pt s))) = closes (trace s) \<and>
      map fst (trace (snd (free P pt s))) =
        map fst (trace s) @
          (if port_p pt \<noteq> 0 then [Sp_free_port (port_p pt)] else []) @
          (if port_c pt \<noteq> 0 then [Sp_free_config (port_c pt)] else [])"
    by (simp add: free_closes free_trace)
  have e: "newSerialPort P p s = (Inr pt, s1) \<longrightarrow>
      \<not> opened pt \<and> closes (trace (snd (free P pt s1))) = closes (trace s1)"
    by (auto simp: free_closes dest: newSerialPort_closed)
  have f: "\<not> opened (fst (free P pt s)) \<and> port_p (fst (free P pt s)) = 0 \<and>
      port_c (fst (free P pt s)) = 0"
    by (simp add: free_port)
  from a b c d e f show ?thesis by simp
qed

theorem free_releases_once_witness:
  "\<not> opened (Port_lit 1\<lparr>port_c := 2\<rparr>) \<and>
   newSerialPort serial_device 1 (boot line_115200) =
     (Inr (Port_lit 1\<lparr>port_c := 2\<rparr>), snd (newSerialPort serial_device 1 (boot line_115200))) \<and>
   closes (trace (snd (free serial_device (Port_lit 1\<lparr>port_c := 2\<rparr>)
      (snd (newSerialPort serial_device 1 (boot line_115200)))))) = 0 \<and>
   map fst (trace (snd (free serial_device (Port_lit 1\<lparr>port_c := 2\<rparr>) (boot line_115200)))) =
     [Sp_free_port 1, Sp_free_config 2]"
proof -
  have n: "newSerialPort serial_device 1 (boot line_115200) =
     (Inr (Port_lit 1\<lparr>port_c := 2\<rparr>), snd (newSerialPort serial_device 1 (boot line_115200)))"
    by (simp add: newSerialPort_def sp_pair boot_def answer_def errmsg_def sp_return_defs)
  have t: "closes (trace (snd (newSerialPort serial_device 1 (boot line_115200)))) = 0"
    by (simp add: newSerialPort_def sp_pair boot_def answer_def errmsg_def sp_return_defs
        closes_def)
  have o: "\<not> opened (Port_lit 1\<lparr>port_c := 2\<rparr>)"
    by (simp add: Port_lit_def)
  show ?thesis
    using n t o
      free_releases_once [where P = serial_device and pt = "Port_lit 1\<lparr>port_c := 2\<rparr>"
        and s = "boot line_115200" and p = 1
        and ?s1.0 = "snd (newSerialPort serial_device 1 (boot line_115200))"]
      free_releases_once [where P = serial_device and pt = "Port_lit 1\<lparr>port_c := 2\<rparr>"
        and s = "snd (newSerialPort serial_device 1 (boot line_115200))" and p = 1
        and ?s1.0 = "snd (newSerialPort serial_device 1 (boot line_115200))"]
    by (simp add: Port_lit_def boot_def)
qed

section \<open>Opening\<close>

lemma Name_snd: "Name P pt s = snd (sp P (Sp_get_port_name (port_p pt)) s)"
  by (simp add: Name_def)

lemma sp_opens:
  "opens (trace (snd (sp P call s))) =
     opens (trace s) + (if opened_ok (call, fst (P (world s) call)) then 1 else 0)"
  by (simp add: sp_pair opens_def)

lemma sp_last: "last (trace (snd (sp P call s))) = (call, fst (P (world s) call))"
  by (simp add: sp_pair)

lemma Port_open_error:
  assumes "Port_open P opt pt s = (Some e, pt', s')"
  shows "opens (trace s') + closes (trace s) = opens (trace s) + closes (trace s') \<and>
         (opens (trace s) < opens (trace s') \<longrightarrow>
            fst (last (trace s')) = Sp_close (port_p pt) \<and> \<not> opened pt')"
  using assms
  apply (simp add: Port_open_def Let_def split: prod.splits option.splits if_splits)
  apply (auto simp: sp_pair Close_eq config_setter_defs setter_snd sp_closes sp_opens sp_last Name_snd
      opens_def closes_def)
  done

lemma PortByName_quiet:
  "opens (trace (snd (PortByName P name s))) = opens (trace s) \<and>
   closes (trace (snd (PortByName P name s))) = closes (trace s)"
  by (simp add: PortByName_def newSerialPort_def sp_pair opens_def closes_def
      split: option.splits)

lemma Open_error:
  assumes "Open P name opt s = (Inl e, s')"
  shows "opens (trace s') + closes (trace s) = opens (trace s) + closes (trace s') \<and>
         (opens (trace s) < opens (trace s') \<longrightarrow> is_close (fst (last (trace s'))))"
proof (cases "PortByName P name s")
  case (Pair res s1)
  have q: "opens (trace s1) = opens (trace s)" "closes (trace s1) = closes (trace s)"
    using PortByName_quiet [of P name s] Pair by simp_all
  show ?thesis
  proof (cases res)
    case (Inl e1)
    with Pair assms have "s' = s1" by (simp add: Open_def)
    with q show ?thesis by simp
  next
    case (Inr pt)
    with Pair assms obtain pt' where "Port_open P opt pt s1 = (Some e, pt', s')"
      by (auto simp: Open_def split: prod.splits option.splits)
    from Port_open_error [OF this] q show ?thesis by auto
  qed
qed

text \<open>
  C8: an open that returns an error leaves no provider handle open. In the log of the
  call, for the method and for the function \<^verbatim>\<open>Open\<close> of the package alike, the provider
  opens that succeeded are as many as the provider closes; and when the provider open did
  succeed, the close of that port handle is the last call made before the error is
  returned, and the port is left with \<^verbatim>\<open>opened\<close> false. (A failure of a setter or of
  \<^verbatim>\<open>ApplyConfig\<close> is not returned by open, so it is no error of the call.)
\<close>

theorem failed_open_is_closed:
  "(Port_open P opt pt s = (Some e, pt', s') \<longrightarrow>
      opens (trace s') + closes (trace s) = opens (trace s) + closes (trace s') \<and>
      (opens (trace s) < opens (trace s') \<longrightarrow>
         fst (last (trace s')) = Sp_close (port_p pt) \<and> \<not> opened pt')) \<and>
   (Open P name opt s = (Inl e, s'') \<longrightarrow>
      opens (trace s'') + closes (trace s) = opens (trace s) + closes (trace s'') \<and>
      (opens (trace s) < opens (trace s'') \<longrightarrow> is_close (fst (last (trace s'')))))"
  using Port_open_error [of P opt pt s e pt' s'] Open_error [of P name opt s e s'']
  by blast


lemma Port_open_unplugged:
  "Port_open replay no_options (Port_lit 1\<lparr>port_c := 2\<rparr>)
     \<lparr>world = [answer SP_OK, answer SP_ERR_FAIL, answer SP_OK], trace = []\<rparr> =
   (Some SystemError, Port_lit 1\<lparr>port_c := 2\<rparr>,
    \<lparr>world = [],
     trace = [(Sp_open 1 3, answer SP_OK), (Sp_get_config 1 2, answer SP_ERR_FAIL),
              (Sp_close 1, answer SP_OK)]\<rparr>)"
  by (simp add: Port_open_def Close_eq sp_pair no_options_def Port_lit_def answer_def errmsg_def
      sp_return_defs C_enum_def MODE_READ_def MODE_WRITE_def)

lemma Open_unplugged:
  "Open replay ''ttyS0'' no_options
     \<lparr>world = [(answer SP_OK)\<lparr>ref := 1\<rparr>, (answer SP_OK)\<lparr>ref := 2\<rparr>, answer SP_OK,
               answer SP_ERR_FAIL, answer SP_OK], trace = []\<rparr> =
   (Inl SystemError,
    \<lparr>world = [],
     trace = [(Sp_get_port_by_name ''ttyS0'', (answer SP_OK)\<lparr>ref := 1\<rparr>),
              (Sp_new_config, (answer SP_OK)\<lparr>ref := 2\<rparr>),
              (Sp_open 1 3, answer SP_OK), (Sp_get_config 1 2, answer SP_ERR_FAIL),
              (Sp_close 1, answer SP_OK)]\<rparr>)"
  by (simp add: Open_def PortByName_def newSerialPort_def Port_open_def Close_eq sp_pair
      no_options_def Port_lit_def answer_def errmsg_def sp_return_defs C_enum_def MODE_READ_def
      MODE_WRITE_def)

theorem failed_open_is_closed_witness:
  "Port_open replay no_options (Port_lit 1\<lparr>port_c := 2\<rparr>)
     \<lparr>world = [answer SP_OK, answer SP_ERR_FAIL, answer SP_OK], trace = []\<rparr> =
   (Some SystemError, Port_lit 1\<lparr>port_c := 2\<rparr>,
    \<lparr>world = [],
     trace = [(Sp_open 1 3, answer SP_OK), (Sp_get_config 1 2, answer SP_ERR_FAIL),
              (Sp_close 1, answer SP_OK)]\<rparr>) \<and>
   opens ([] :: (sp_call \<times> reply) list) <
     opens [(Sp_open 1 3, answer SP_OK), (Sp_get_config 1 2, answer SP_ERR_FAIL),
            (Sp_close 1, answer SP_OK)] \<and>
   closes [(Sp_open 1 3, answer SP_OK), (Sp_get_config 1 2, answer SP_ERR_FAIL),
           (Sp_close 1, answer SP_OK)] = 1 \<and>
   \<not> opened (Port_lit 1\<lparr>port_c := 2\<rparr>) \<and>
   Open replay ''ttyS0'' no_options
     \<lparr>world = [(answer SP_OK)\<lparr>ref := 1\<rparr>, (answer SP_OK)\<lparr>ref := 2\<rparr>, answer SP_OK,
               answer SP_ERR_FAIL, answer SP_OK], trace = []\<rparr> =
   (Inl SystemError,
    \<lparr>world = [],
     trace = [(Sp_get_port_by_name ''ttyS0'', (answer SP_OK)\<lparr>ref := 1\<rparr>),
              (Sp_new_config, (answer SP_OK)\<lparr>ref := 2\<rparr>),
              (Sp_open 1 3, answer SP_OK), (Sp_get_config 1 2, answer SP_ERR_FAIL),
              (Sp_close 1, answer SP_OK)]\<rparr>) \<and>
   opens ([] :: (sp_call \<times> reply) list) <
     opens [(Sp_get_port_by_name ''ttyS0'', (answer SP_OK)\<lparr>ref := 1\<rparr>),
            (Sp_new_config, (answer SP_OK)\<lparr>ref := 2\<rparr>),
            (Sp_open 1 3, answer SP_OK), (Sp_get_config 1 2, answer SP_ERR_FAIL),
            (Sp_close 1, answer SP_OK)] \<and>
   closes [(Sp_get_port_by_name ''ttyS0'', (answer SP_OK)\<lparr>ref := 1\<rparr>),
           (Sp_new_config, (answer SP_OK)\<lparr>ref := 2\<rparr>),
           (Sp_open 1 3, answer SP_OK), (Sp_get_config 1 2, answer SP_ERR_FAIL),
           (Sp_close 1, answer SP_OK)] = 1"
  using failed_open_is_closed [where P = replay and opt = no_options
      and pt = "Port_lit 1\<lparr>port_c := 2\<rparr>"
      and s = "\<lparr>world = [answer SP_OK, answer SP_ERR_FAIL, answer SP_OK], trace = []\<rparr>"
      and e = SystemError and pt' = "Port_lit 1\<lparr>port_c := 2\<rparr>"
      and s' = "\<lparr>world = [],
         trace = [(Sp_open 1 3, answer SP_OK), (Sp_get_config 1 2, answer SP_ERR_FAIL),
                  (Sp_close 1, answer SP_OK)]\<rparr>"]
    failed_open_is_closed [where P = replay and opt = no_options and name = "''ttyS0''"
      and s = "\<lparr>world = [(answer SP_OK)\<lparr>ref := 1\<rparr>, (answer SP_OK)\<lparr>ref := 2\<rparr>, answer SP_OK,
               answer SP_ERR_FAIL, answer SP_OK], trace = []\<rparr>"
      and e = SystemError
      and s'' = "\<lparr>world = [],
         trace = [(Sp_get_port_by_name ''ttyS0'', (answer SP_OK)\<lparr>ref := 1\<rparr>),
              (Sp_new_config, (answer SP_OK)\<lparr>ref := 2\<rparr>),
              (Sp_open 1 3, answer SP_OK), (Sp_get_config 1 2, answer SP_ERR_FAIL),
              (Sp_close 1, answer SP_OK)]\<rparr>"]
    Port_open_unplugged Open_unplugged
  by (simp add: opens_def closes_def answer_def errmsg_def sp_return_defs Port_lit_def)

end
